theory Spec2Isabelle
  imports Main "HOL-Library.Multiset"
begin

section \<open>Role-aware retrieval: data model\<close>

text \<open>
  The embedding follows \<^verbatim>\<open>app/rag_pipeline.py\<close>, \<^verbatim>\<open>app/document_loader.py\<close> and
  \<^verbatim>\<open>app/main.py\<close>. Python exceptions are values of type \<open>exn\<close>; a function that can
  raise returns \<open>exn + 'a\<close> with \<open>Inl\<close> for the raised exception.
\<close>

datatype exn =
    RuntimeError string
  | ValueError string
  | KeyError string
  | OtherError string

text \<open>\<^verbatim>\<open>str(e)\<close>: the message, and for a \<^verbatim>\<open>KeyError\<close> the quoted key.\<close>

fun str_exn :: "exn \<Rightarrow> string" where
  "str_exn (RuntimeError m) = m"
| "str_exn (ValueError m) = m"
| "str_exn (KeyError k) = [CHR 0x27] @ k @ [CHR 0x27]"
| "str_exn (OtherError m) = m"

text \<open>
  An entry of \<^verbatim>\<open>self.document_metadata\<close>: the dict with the keys
  \<^verbatim>\<open>source\<close>, \<^verbatim>\<open>department\<close> and \<^verbatim>\<open>allowed_roles\<close>.
\<close>

record doc_meta =
  meta_source :: string
  meta_department :: string
  allowed_roles :: "string list"

text \<open>
  The Chroma collection is an external index. What the pipeline stores in it is a list of
  entries (id, document text, metadata dict); the metadata dict is a map from keys to
  strings.
\<close>

type_synonym metadata = "string \<rightharpoonup> string"
type_synonym index_entry = "string \<times> string \<times> metadata"

text \<open>
  The state of a \<^verbatim>\<open>RAGPipeline\<close> object: \<^verbatim>\<open>self.collection\<close> (\<open>None\<close> until the
  vector store is initialised), \<^verbatim>\<open>self.document_metadata\<close> and \<^verbatim>\<open>self.doc_counter\<close>.
\<close>

record pipeline =
  collection :: "index_entry list option"
  document_metadata :: "string \<rightharpoonup> doc_meta"
  doc_counter :: nat

text \<open>
  The dict returned by \<^verbatim>\<open>collection.query\<close>: \<^verbatim>\<open>ids\<close>, \<^verbatim>\<open>documents\<close> and
  \<^verbatim>\<open>metadatas\<close>, each a list with one inner list per query text; the last two may be
  \<^verbatim>\<open>None\<close>.
\<close>

record query_results =
  ids :: "string list list"
  documents :: "string list list option"
  metadatas :: "metadata list list option"

text \<open>
  The similarity search itself is external: \<open>search col query_text n_results\<close> stands for
  \<^verbatim>\<open>collection.query(query_texts=[query], n_results=n)\<close> and may raise.
\<close>

type_synonym search = "index_entry list \<Rightarrow> string \<Rightarrow> int \<Rightarrow> exn + query_results"

text \<open>A retrieved passage: the dict \<^verbatim>\<open>doc_item\<close> built in \<^verbatim>\<open>retrieve\<close>.\<close>

record doc_item =
  content :: string
  source :: string
  department :: string

section \<open>retrieve\<close>

text \<open>\<^verbatim>\<open>x[0] if x else []\<close> for a list of lists, and for one that may be \<^verbatim>\<open>None\<close>.\<close>

fun first_batch :: "'a list list \<Rightarrow> 'a list" where
  "first_batch [] = []"
| "first_batch (x # _) = x"

fun first_batch_opt :: "'a list list option \<Rightarrow> 'a list" where
  "first_batch_opt None = []"
| "first_batch_opt (Some xs) = first_batch xs"

text \<open>\<^verbatim>\<open>zip(doc_ids, docs, metadatas)\<close>: as long as the shortest of the three.\<close>

definition zip3 :: "'a list \<Rightarrow> 'b list \<Rightarrow> 'c list \<Rightarrow> ('a \<times> 'b \<times> 'c) list" where
  "zip3 xs ys zs = zip xs (zip ys zs)"

definition candidates :: "query_results \<Rightarrow> index_entry list" where
  "candidates results =
     zip3 (first_batch (ids results)) (first_batch_opt (documents results))
          (first_batch_opt (metadatas results))"

text \<open>
  \<^verbatim>\<open>self.document_metadata.get(doc_id, {}).get("allowed_roles", [])\<close> and
  \<^verbatim>\<open>metadata.get("department", "")\<close>.
\<close>

definition stored_roles :: "(string \<rightharpoonup> doc_meta) \<Rightarrow> string \<Rightarrow> string list" where
  "stored_roles reg doc_id = (case reg doc_id of None \<Rightarrow> [] | Some m \<Rightarrow> allowed_roles m)"

definition department_of :: "metadata \<Rightarrow> string" where
  "department_of metadata = (case metadata ''department'' of None \<Rightarrow> [] | Some d \<Rightarrow> d)"

text \<open>
  The \<^verbatim>\<open>for\<close> loop of \<^verbatim>\<open>retrieve\<close>, with the two lists it appends to as accumulators.
  \<^verbatim>\<open>metadata["source"]\<close> raises \<^verbatim>\<open>KeyError\<close> when the key is missing; it is evaluated
  only for a candidate that passed the access test.
\<close>

fun retrieve_loop ::
  "(string \<rightharpoonup> doc_meta) \<Rightarrow> string \<Rightarrow> doc_item list \<Rightarrow> doc_item list \<Rightarrow> index_entry list
     \<Rightarrow> exn + (doc_item list \<times> doc_item list)" where
  "retrieve_loop reg role department_specific general_docs [] =
     Inr (department_specific, general_docs)"
| "retrieve_loop reg role department_specific general_docs ((doc_id, doc, metadata) # rest) =
     (let allowed = stored_roles reg doc_id;
          dept = department_of metadata
      in if role \<in> set allowed \<or> role = ''c-level'' then
           (case metadata ''source'' of
              None \<Rightarrow> Inl (KeyError ''source'')
            | Some src \<Rightarrow>
                (let doc_item = \<lparr>content = doc, source = src, department = dept\<rparr>
                 in if dept = ''general''
                    then retrieve_loop reg role department_specific (general_docs @ [doc_item]) rest
                    else retrieve_loop reg role (department_specific @ [doc_item]) general_docs rest))
         else retrieve_loop reg role department_specific general_docs rest)"

text \<open>
  The slice \<^verbatim>\<open>xs[:k]\<close> for a Python integer \<open>k\<close>: the first \<open>k\<close> elements, and for a
  negative \<open>k\<close> all but the last \<open>-k\<close>.
\<close>

definition slice_to :: "int \<Rightarrow> 'a list \<Rightarrow> 'a list" where
  "slice_to k xs = (if 0 \<le> k then take (nat k) xs else take (length xs - nat (- k)) xs)"

definition retrieve :: "pipeline \<Rightarrow> search \<Rightarrow> string \<Rightarrow> string \<Rightarrow> int \<Rightarrow> exn + doc_item list" where
  "retrieve p search query_text role top_k =
     (case collection p of
        None \<Rightarrow> Inl (RuntimeError ''Vector store not initialized. Call initialize_vector_store() first.'')
      | Some col \<Rightarrow>
          (case search col query_text (top_k * 3) of
             Inl e \<Rightarrow> Inl e
           | Inr results \<Rightarrow>
               (case retrieve_loop (document_metadata p) role [] [] (candidates results) of
                  Inl e \<Rightarrow> Inl e
                | Inr (department_specific, general_docs) \<Rightarrow>
                    (let retrieved = slice_to top_k department_specific
                     in if int (length retrieved) < top_k
                        then Inr (retrieved @ slice_to (top_k - int (length retrieved)) general_docs)
                        else Inr retrieved))))"

section \<open>The access filter and the two partitions, as the specification words them\<close>

text \<open>
  A candidate is a triple (id, document, metadata) of the index result. It is accessible
  to a role when the role is among the roles stored for its id, or the role is the
  full-access role.
\<close>

definition accessible :: "(string \<rightharpoonup> doc_meta) \<Rightarrow> string \<Rightarrow> index_entry \<Rightarrow> bool" where
  "accessible reg role c = (role \<in> set (stored_roles reg (fst c)) \<or> role = ''c-level'')"

definition is_general :: "index_entry \<Rightarrow> bool" where
  "is_general c = (department_of (snd (snd c)) = ''general'')"

definition has_source :: "index_entry \<Rightarrow> bool" where
  "has_source c = (snd (snd c) ''source'' \<noteq> None)"

text \<open>The passage built from a candidate whose metadata has a \<^verbatim>\<open>source\<close> key.\<close>

definition item_of :: "index_entry \<Rightarrow> doc_item" where
  "item_of c = \<lparr>content = fst (snd c),
               source = (case snd (snd c) ''source'' of None \<Rightarrow> [] | Some s \<Rightarrow> s),
               department = department_of (snd (snd c))\<rparr>"

definition specific_part :: "(string \<rightharpoonup> doc_meta) \<Rightarrow> string \<Rightarrow> index_entry list \<Rightarrow> doc_item list" where
  "specific_part reg role cs =
     map item_of (filter (\<lambda>c. accessible reg role c \<and> \<not> is_general c) cs)"

definition general_part :: "(string \<rightharpoonup> doc_meta) \<Rightarrow> string \<Rightarrow> index_entry list \<Rightarrow> doc_item list" where
  "general_part reg role cs =
     map item_of (filter (\<lambda>c. accessible reg role c \<and> is_general c) cs)"

section \<open>The access map\<close>

text \<open>\<^verbatim>\<open>DocumentLoader.ROLE_ACCESS_MAP\<close>, a dict from department to the roles that read it.\<close>

definition ROLE_ACCESS_MAP :: "(string \<times> string list) list" where
  "ROLE_ACCESS_MAP =
     [(''finance'', [''finance'', ''c-level'']),
      (''marketing'', [''marketing'', ''c-level'']),
      (''hr'', [''hr'', ''c-level'']),
      (''engineering'', [''engineering'', ''c-level'']),
      (''general'', [''finance'', ''marketing'', ''hr'', ''engineering'', ''c-level'', ''employee''])]"

text \<open>The departments a role reads under the access map.\<close>

definition allowed_departments :: "string \<Rightarrow> string list" where
  "allowed_departments role = map fst (filter (\<lambda>(d, roles). role \<in> set roles) ROLE_ACCESS_MAP)"

section \<open>generate_response and query\<close>

text \<open>\<^verbatim>\<open>str(n)\<close> for a natural number: its decimal digits.\<close>

fun str_nat :: "nat \<Rightarrow> string" where
  "str_nat n =
     (if n < 10 then [char_of (48 + n)] else str_nat (n div 10) @ [char_of (48 + n mod 10)])"

declare str_nat.simps [simp del]

text \<open>
  The answer generator is external: \<open>llm prompt\<close> stands for
  \<^verbatim>\<open>self.client.messages.create(...)\<close> followed by \<^verbatim>\<open>message.content[0].text\<close>, and is
  either the reply text or the exception raised on the way.
\<close>

type_synonym llm = "string \<Rightarrow> exn + string"

text \<open>The loop over \<^verbatim>\<open>enumerate(context, 1)\<close> that builds \<^verbatim>\<open>context_str\<close>.\<close>

fun build_context :: "string \<Rightarrow> nat \<Rightarrow> doc_item list \<Rightarrow> string" where
  "build_context context_str i [] = context_str"
| "build_context context_str i (doc # rest) =
     build_context
       (context_str @ [CHR 0x0A] @ ''[Source '' @ str_nat i @ '': '' @ source doc @ '']'' @
          [CHR 0x0A] @ content doc @ [CHR 0x0A])
       (Suc i) rest"

definition prompt_of :: "string \<Rightarrow> string \<Rightarrow> string" where
  "prompt_of query_text context_str =
     ''Based on these company documents, answer the question clearly and concisely.'' @
     [CHR 0x0A, CHR 0x0A] @ ''    DOCUMENTS:'' @ [CHR 0x0A] @ ''    '' @ context_str @
     [CHR 0x0A, CHR 0x0A] @ ''    QUESTION: '' @ query_text @
     [CHR 0x0A, CHR 0x0A] @ ''    ANSWER:''"

text \<open>
  \<^verbatim>\<open>generate_response\<close> returns the answer text; the second component lists the prompts
  it submitted to the service, in order, so that the number of calls can be stated.
\<close>

definition generate_response :: "llm \<Rightarrow> string \<Rightarrow> doc_item list \<Rightarrow> string \<times> string list" where
  "generate_response llm query_text context =
     (let prompt = prompt_of query_text (build_context [] 1 context)
      in (case llm prompt of
            Inr reply \<Rightarrow> reply
          | Inl e \<Rightarrow> ''Error generating response: '' @ str_exn e,
          [prompt]))"

text \<open>The dict returned by \<^verbatim>\<open>query\<close>, with the keys answer, sources, role and query.\<close>

record query_response =
  answer :: string
  sources :: "string list"
  resp_role :: string
  resp_query :: string

definition query ::
  "pipeline \<Rightarrow> search \<Rightarrow> llm \<Rightarrow> string \<Rightarrow> string \<Rightarrow> (exn + query_response) \<times> string list" where
  "query p search llm question role =
     (case retrieve p search question role 3 of
        Inl e \<Rightarrow> (Inl e, [])
      | Inr retrieved_docs \<Rightarrow>
          if retrieved_docs = [] then
            (Inr \<lparr>answer = ''No documents found accessible to '' @ role @ '' role for this query.'',
                  sources = [], resp_role = role, resp_query = question\<rparr>, [])
          else
            (case generate_response llm question retrieved_docs of
               (reply, sent) \<Rightarrow>
                 (Inr \<lparr>answer = reply, sources = map source retrieved_docs,
                       resp_role = role, resp_query = question\<rparr>, sent)))"

section \<open>The endpoints of main.py\<close>

datatype http_exception = HTTPException nat string

text \<open>
  \<^verbatim>\<open>query_chatbot\<close>: the global \<^verbatim>\<open>rag_pipeline\<close> is \<open>None\<close> before start-up; the caller's
  role is the one \<^verbatim>\<open>get_current_user\<close> found for the credentials.
\<close>

definition query_chatbot ::
  "pipeline option \<Rightarrow> search \<Rightarrow> llm \<Rightarrow> string \<Rightarrow> string
     \<Rightarrow> (http_exception + query_response) \<times> string list" where
  "query_chatbot rag_pipeline search llm question role =
     (case rag_pipeline of
        None \<Rightarrow> (Inl (HTTPException 500 ''RAG pipeline not initialized''), [])
      | Some p \<Rightarrow>
          (case query p search llm question role of
             (Inl e, sent) \<Rightarrow> (Inl (HTTPException 500 (''Query failed: '' @ str_exn e)), sent)
           | (Inr result, sent) \<Rightarrow> (Inr result, sent)))"

section \<open>add_document and upload_document\<close>

text \<open>
  \<^verbatim>\<open>collection.add\<close> is external as well: \<open>add col entry\<close> is the collection with the entry
  stored, or the exception raised.
\<close>

type_synonym index_add = "index_entry list \<Rightarrow> index_entry \<Rightarrow> exn + index_entry list"

text \<open>
  \<^verbatim>\<open>add_document\<close> returns the new id or the exception, and the pipeline as it is
  afterwards: the counter and the metadata dict are written before \<^verbatim>\<open>collection.add\<close>
  is called.
\<close>

definition add_document ::
  "index_add \<Rightarrow> pipeline \<Rightarrow> string \<Rightarrow> string \<Rightarrow> string \<Rightarrow> string list \<Rightarrow> (exn + string) \<times> pipeline" where
  "add_document add p text src dept roles =
     (case collection p of
        None \<Rightarrow> (Inl (RuntimeError ''Vector store not initialized''), p)
      | Some col \<Rightarrow>
          (let doc_id = ''doc_'' @ str_nat (doc_counter p);
               p1 = p\<lparr>doc_counter := doc_counter p + 1,
                      document_metadata := (document_metadata p)
                        (doc_id \<mapsto> \<lparr>meta_source = src, meta_department = dept, allowed_roles = roles\<rparr>)\<rparr>
           in case add col (doc_id, text, [''source'' \<mapsto> src, ''department'' \<mapsto> dept]) of
                Inl e \<Rightarrow> (Inl e, p1)
              | Inr col' \<Rightarrow> (Inr doc_id, p1\<lparr>collection := Some col'\<rparr>)))"

text \<open>
  The three static methods of \<^verbatim>\<open>FileParser\<close> that the upload endpoint calls. Their results
  depend on pathlib, pandas and pdfplumber, so they are parameters here; each may raise.
\<close>

record file_parser =
  validate_filename :: "string \<Rightarrow> exn + bool"
  parse_file :: "string \<Rightarrow> string \<Rightarrow> exn + (string \<times> string)"
  get_department_from_filename :: "string \<Rightarrow> string option"

record upload_response =
  up_message :: string
  up_filename :: string
  up_doc_id :: string
  up_department :: string
  up_accessible_roles :: "string list"

definition valid_departments :: "string list" where
  "valid_departments = [''finance'', ''marketing'', ''hr'', ''engineering'', ''general'']"

text \<open>\<^verbatim>\<open>sep.join(xs)\<close>.\<close>

fun join :: "string \<Rightarrow> string list \<Rightarrow> string" where
  "join sep [] = []"
| "join sep [x] = x"
| "join sep (x # y # ys) = x @ sep @ join sep (y # ys)"

text \<open>
  The department the upload is filed under: the one given, or when none is given
  (\<^verbatim>\<open>None\<close> or the empty string) the one inferred from the file name.
\<close>

definition determine_department :: "file_parser \<Rightarrow> string \<Rightarrow> string option \<Rightarrow> exn + string" where
  "determine_department fp filename dept_arg =
     (if dept_arg = None \<or> dept_arg = Some [] then
        (case get_department_from_filename fp filename of
           Some inferred_dept \<Rightarrow>
             if inferred_dept \<noteq> [] then Inr inferred_dept
             else Inl (ValueError (''Could not infer department from filename. '' @
                    ''Please specify department (finance, marketing, hr, engineering, general)''))
         | None \<Rightarrow>
             Inl (ValueError (''Could not infer department from filename. '' @
                    ''Please specify department (finance, marketing, hr, engineering, general)'')))
      else (case dept_arg of Some d \<Rightarrow> Inr d | None \<Rightarrow> Inr []))"

text \<open>
  The body of the \<^verbatim>\<open>try\<close> block of \<^verbatim>\<open>upload_document\<close>. The result comes with the
  pipeline afterwards and with a flag that tells whether \<^verbatim>\<open>file.read()\<close> was reached.
\<close>

definition upload_body ::
  "file_parser \<Rightarrow> index_add \<Rightarrow> pipeline \<Rightarrow> string \<Rightarrow> string \<Rightarrow> string option
     \<Rightarrow> (exn + upload_response) \<times> pipeline \<times> bool" where
  "upload_body fp add p filename file_bytes dept_arg =
     (case validate_filename fp filename of
        Inl e \<Rightarrow> (Inl e, p, False)
      | Inr ok \<Rightarrow>
          if \<not> ok then (Inl (ValueError ''Unsupported file format. Supported: MD, CSV, PDF''), p, False)
          else
            (case parse_file fp file_bytes filename of
               Inl e \<Rightarrow> (Inl e, p, True)
             | Inr (text, file_format) \<Rightarrow>
                 (case determine_department fp filename dept_arg of
                    Inl e \<Rightarrow> (Inl e, p, True)
                  | Inr dept \<Rightarrow>
                      if dept \<notin> set valid_departments then
                        (Inl (ValueError (''Invalid department: '' @ dept @ ''. '' @
                            ''Valid departments: '' @ join '', '' valid_departments)), p, True)
                      else
                        (let accessible_roles =
                               (if dept = ''general''
                                then [''finance'', ''marketing'', ''hr'', ''engineering'', ''c-level'', ''employee'']
                                else [dept, ''c-level''])
                         in case add_document add p text filename dept accessible_roles of
                              (Inl e, p') \<Rightarrow> (Inl e, p', True)
                            | (Inr doc_id, p') \<Rightarrow>
                                (Inr \<lparr>up_message = ''Document uploaded successfully'',
                                      up_filename = filename, up_doc_id = doc_id,
                                      up_department = dept,
                                      up_accessible_roles = accessible_roles\<rparr>, p', True)))))"

text \<open>The two \<^verbatim>\<open>except\<close> clauses: a \<^verbatim>\<open>ValueError\<close> becomes 400, anything else 500.\<close>

fun upload_error :: "exn \<Rightarrow> http_exception" where
  "upload_error (ValueError m) = HTTPException 400 m"
| "upload_error e = HTTPException 500 (''Upload failed: '' @ str_exn e)"

definition upload_document ::
  "pipeline option \<Rightarrow> file_parser \<Rightarrow> index_add \<Rightarrow> string \<Rightarrow> string \<Rightarrow> string option \<Rightarrow> string
     \<Rightarrow> (http_exception + upload_response) \<times> pipeline option \<times> bool" where
  "upload_document rag_pipeline fp add filename file_bytes dept_arg role =
     (case rag_pipeline of
        None \<Rightarrow> (Inl (HTTPException 500 ''RAG pipeline not initialized''), None, False)
      | Some p \<Rightarrow>
          if role \<noteq> ''c-level'' then
            (Inl (HTTPException 403 ''Only C-level executives can upload documents''), Some p, False)
          else
            (case upload_body fp add p filename file_bytes dept_arg of
               (Inl e, p', was_read) \<Rightarrow> (Inl (upload_error e), Some p', was_read)
             | (Inr response, p', was_read) \<Rightarrow> (Inr response, Some p', was_read)))"

section \<open>A small corpus\<close>

text \<open>
  The scenario of the specification: a finance document and a general one, registered
  under the access map, and an index that ranks the general document first.
\<close>

definition finance_md :: metadata where
  "finance_md = [''source'' \<mapsto> ''finance/q4.md'', ''department'' \<mapsto> ''finance'']"

definition general_md :: metadata where
  "general_md = [''source'' \<mapsto> ''general/holidays.md'', ''department'' \<mapsto> ''general'']"

definition doc_A :: index_entry where
  "doc_A = (''doc_0'', ''Q4 revenue $45M'', finance_md)"

definition doc_B :: index_entry where
  "doc_B = (''doc_1'', ''Company holidays list'', general_md)"

definition ex_registry :: "string \<rightharpoonup> doc_meta" where
  "ex_registry =
     [''doc_0'' \<mapsto> \<lparr>meta_source = ''finance/q4.md'', meta_department = ''finance'',
                     allowed_roles = [''finance'', ''c-level'']\<rparr>,
      ''doc_1'' \<mapsto> \<lparr>meta_source = ''general/holidays.md'', meta_department = ''general'',
                     allowed_roles = [''finance'', ''marketing'', ''hr'', ''engineering'',
                                      ''c-level'', ''employee'']\<rparr>]"

definition ex_pipeline :: pipeline where
  "ex_pipeline = \<lparr>collection = Some [doc_A, doc_B], document_metadata = ex_registry, doc_counter = 2\<rparr>"

text \<open>An index that answers every query with the stored entries, the general one first.\<close>

definition results_of :: "index_entry list \<Rightarrow> query_results" where
  "results_of cs = \<lparr>ids = [map fst cs], documents = Some [map (fst \<circ> snd) cs],
                    metadatas = Some [map (snd \<circ> snd) cs]\<rparr>"

definition ex_search :: search where
  "ex_search col query_text n = Inr (results_of [doc_B, doc_A])"

text \<open>An index out of step with the registry: it returns an entry the registry lacks.\<close>

definition doc_orphan :: index_entry where
  "doc_orphan = (''doc_9'', ''Board minutes'', [''source'' \<mapsto> ''board.md'', ''department'' \<mapsto> ''finance''])"

definition skew_search :: search where
  "skew_search col query_text n = Inr (results_of [doc_orphan])"

text \<open>An entry stored without a department, and an index that ranks it last.\<close>

definition doc_untagged :: index_entry where
  "doc_untagged = (''doc_1'', ''Untagged note'', [''source'' \<mapsto> ''note.md''])"

definition untagged_search :: search where
  "untagged_search col query_text n = Inr (results_of [doc_B, doc_untagged])"

text \<open>An index store that appends, a service that is down, and one that answers.\<close>

definition append_add :: index_add where
  "append_add col entry = Inr (col @ [entry])"

definition llm_down :: llm where
  "llm_down prompt = Inl (OtherError ''Connection error.'')"

definition llm_parrot :: llm where
  "llm_parrot prompt = Inr ''Error generating response: Connection error.''"

definition ex_parser :: file_parser where
  "ex_parser = \<lparr>validate_filename = (\<lambda>filename. Inr True),
                parse_file = (\<lambda>file_bytes filename. Inr (file_bytes, ''markdown'')),
                get_department_from_filename = (\<lambda>filename. None)\<rparr>"

section \<open>Registry entries derived from the access map\<close>

text \<open>
  A registry entry is derived from the access map when its stored roles are the roles
  the map gives its stored department; \<open>policy_on\<close> says so of the entries that the
  candidates of an index result resolve to.
\<close>

definition policy_entry :: "doc_meta \<Rightarrow> bool" where
  "policy_entry m = (map_of ROLE_ACCESS_MAP (meta_department m) = Some (allowed_roles m))"

definition policy_on :: "(string \<rightharpoonup> doc_meta) \<Rightarrow> index_entry list \<Rightarrow> bool" where
  "policy_on reg cs = list_all (\<lambda>c. case reg (fst c) of None \<Rightarrow> True | Some m \<Rightarrow> policy_entry m) cs"

text \<open>The same of every entry of the registry.\<close>

definition policy_derived :: "(string \<rightharpoonup> doc_meta) \<Rightarrow> bool" where
  "policy_derived reg = (\<forall>doc_id m. reg doc_id = Some m \<longrightarrow> policy_entry m)"

section \<open>Properties of the retrieval loop\<close>

lemma specific_part_Nil [simp]: "specific_part reg role [] = []"
  by (simp add: specific_part_def)

lemma general_part_Nil [simp]: "general_part reg role [] = []"
  by (simp add: general_part_def)

lemma specific_part_Cons:
  "specific_part reg role (c # cs) =
     (if accessible reg role c \<and> \<not> is_general c then item_of c # specific_part reg role cs
      else specific_part reg role cs)"
  by (simp add: specific_part_def)

lemma general_part_Cons:
  "general_part reg role (c # cs) =
     (if accessible reg role c \<and> is_general c then item_of c # general_part reg role cs
      else general_part reg role cs)"
  by (simp add: general_part_def)

text \<open>One iteration of the loop, in terms of the three tests it makes.\<close>

lemma retrieve_loop_step:
  "retrieve_loop reg role ds gs (c # cs) =
     (if accessible reg role c then
        (if has_source c then
           (if is_general c then retrieve_loop reg role ds (gs @ [item_of c]) cs
            else retrieve_loop reg role (ds @ [item_of c]) gs cs)
         else Inl (KeyError ''source''))
      else retrieve_loop reg role ds gs cs)"
  by (cases c) (auto simp: accessible_def has_source_def is_general_def item_of_def Let_def
      split: option.splits)

lemma retrieve_loop_eq:
  "\<forall>c\<in>set cs. accessible reg role c \<longrightarrow> has_source c \<Longrightarrow>
   retrieve_loop reg role ds gs cs =
     Inr (ds @ specific_part reg role cs, gs @ general_part reg role cs)"
proof (induction cs arbitrary: ds gs)
  case Nil
  show ?case by simp
next
  case (Cons c cs)
  have IH: "\<And>ds gs. retrieve_loop reg role ds gs cs =
     Inr (ds @ specific_part reg role cs, gs @ general_part reg role cs)"
    using Cons by simp
  have src: "accessible reg role c \<Longrightarrow> has_source c"
    using Cons.prems by simp
  show ?case
    using src by (simp add: retrieve_loop_step IH specific_part_Cons general_part_Cons)
qed

lemma retrieve_loop_KeyError:
  "\<exists>c\<in>set cs. accessible reg role c \<and> \<not> has_source c \<Longrightarrow>
   retrieve_loop reg role ds gs cs = Inl (KeyError ''source'')"
proof (induction cs arbitrary: ds gs)
  case Nil
  then show ?case by simp
next
  case (Cons c cs)
  show ?case
  proof (cases "accessible reg role c \<and> \<not> has_source c")
    case True
    then show ?thesis by (simp add: retrieve_loop_step)
  next
    case False
    then have "\<exists>c\<in>set cs. accessible reg role c \<and> \<not> has_source c"
      using Cons.prems by auto
    then have "\<And>ds gs. retrieve_loop reg role ds gs cs = Inl (KeyError ''source'')"
      using Cons.IH by blast
    then show ?thesis using False by (simp add: retrieve_loop_step)
  qed
qed

lemma retrieve_eq:
  assumes "collection p = Some col" and "search col q (top_k * 3) = Inr results"
    and "\<forall>c\<in>set (candidates results). accessible (document_metadata p) role c \<longrightarrow> has_source c"
  shows "retrieve p search q role top_k =
     Inr (let retrieved = slice_to top_k (specific_part (document_metadata p) role (candidates results))
          in if int (length retrieved) < top_k
             then retrieved @ slice_to (top_k - int (length retrieved))
                    (general_part (document_metadata p) role (candidates results))
             else retrieved)"
  using assms by (simp add: retrieve_def retrieve_loop_eq Let_def)

lemma assemble_nonneg:
  assumes "0 \<le> k"
  shows "(let retrieved = slice_to k D
          in if int (length retrieved) < k
             then retrieved @ slice_to (k - int (length retrieved)) G
             else retrieved) = take (nat k) D @ take (nat k - length D) G"
proof (cases "length D < nat k")
  case True
  then show ?thesis using assms by (simp add: slice_to_def Let_def min_def nat_diff_distrib')
next
  case False
  then show ?thesis using assms by (simp add: slice_to_def Let_def min_def)
qed

lemma set_slice_to: "set (slice_to k xs) \<subseteq> set xs"
  by (auto simp: slice_to_def dest: in_set_takeD)

lemma retrieve_InrD:
  assumes "retrieve p search q role top_k = Inr docs"
  shows "\<exists>col results. collection p = Some col \<and> search col q (top_k * 3) = Inr results \<and>
     (\<forall>c\<in>set (candidates results). accessible (document_metadata p) role c \<longrightarrow> has_source c)"
proof -
  obtain col where col: "collection p = Some col"
    using assms by (cases "collection p") (simp_all add: retrieve_def)
  obtain results where res: "search col q (top_k * 3) = Inr results"
    using assms col by (cases "search col q (top_k * 3)") (simp_all add: retrieve_def)
  have "\<not> (\<exists>c\<in>set (candidates results). accessible (document_metadata p) role c \<and> \<not> has_source c)"
  proof
    assume "\<exists>c\<in>set (candidates results). accessible (document_metadata p) role c \<and> \<not> has_source c"
    then have "retrieve_loop (document_metadata p) role [] [] (candidates results) = Inl (KeyError ''source'')"
      by (rule retrieve_loop_KeyError)
    then show False using assms col res by (simp add: retrieve_def)
  qed
  then show ?thesis using col res by blast
qed

lemma retrieve_set_subset:
  assumes "retrieve p search q role top_k = Inr docs" "collection p = Some col"
    "search col q (top_k * 3) = Inr results"
  shows "set docs \<subseteq> set (specific_part (document_metadata p) role (candidates results)) \<union>
                    set (general_part (document_metadata p) role (candidates results))"
proof -
  from retrieve_InrD[OF assms(1)] assms(2,3)
  have src: "\<forall>c\<in>set (candidates results). accessible (document_metadata p) role c \<longrightarrow> has_source c"
    by auto
  have "docs = (let retrieved = slice_to top_k (specific_part (document_metadata p) role (candidates results))
          in if int (length retrieved) < top_k
             then retrieved @ slice_to (top_k - int (length retrieved))
                    (general_part (document_metadata p) role (candidates results))
             else retrieved)"
    using retrieve_eq[where p=p and search=search and col=col and q=q and top_k=top_k and results=results and role=role, OF assms(2,3) src] assms(1) by simp
  then show ?thesis
    using set_slice_to[of top_k "specific_part (document_metadata p) role (candidates results)"]
      set_slice_to[of "top_k - int (length (slice_to top_k (specific_part (document_metadata p) role (candidates results))))"
         "general_part (document_metadata p) role (candidates results)"]
    by (auto simp: Let_def split: if_splits)
qed

lemma allowed_departments_iff:
  "d \<in> set (allowed_departments role) \<longleftrightarrow> (\<exists>roles. map_of ROLE_ACCESS_MAP d = Some roles \<and> role \<in> set roles)"
  by (auto simp: allowed_departments_def ROLE_ACCESS_MAP_def)

text \<open>
  Claim C1 (department isolation). For a role other than \<^verbatim>\<open>c-level\<close>, every passage
  that \<^verbatim>\<open>retrieve\<close> returns is the passage of a candidate of the index result whose id
  the registry resolves and whose stored \<^verbatim>\<open>allowed_roles\<close> contain the role. Where the
  stored roles are those the access map gives the stored department, that department is
  one of the departments the role reads under the access map. This holds for every
  query, every limit (negative ones included) and every behaviour of the index.
\<close>

theorem retrieve_department_isolation:
  assumes "role \<noteq> ''c-level''" and "retrieve p search q role top_k = Inr docs" and "d \<in> set docs"
  shows "\<exists>col results c m. collection p = Some col \<and> search col q (top_k * 3) = Inr results \<and>
           c \<in> set (candidates results) \<and> d = item_of c \<and>
           document_metadata p (fst c) = Some m \<and> role \<in> set (allowed_roles m) \<and>
           (map_of ROLE_ACCESS_MAP (meta_department m) = Some (allowed_roles m) \<longrightarrow>
              meta_department m \<in> set (allowed_departments role))"
proof -
  from retrieve_InrD[OF assms(2)] obtain col results where
    col: "collection p = Some col" and res: "search col q (top_k * 3) = Inr results"
    by blast
  have "d \<in> set (specific_part (document_metadata p) role (candidates results)) \<union>
            set (general_part (document_metadata p) role (candidates results))"
    using retrieve_set_subset[OF assms(2) col res] assms(3) by blast
  then obtain c where c: "c \<in> set (candidates results)" "d = item_of c"
      "accessible (document_metadata p) role c"
    by (auto simp: specific_part_def general_part_def)
  from c(3) assms(1) have "role \<in> set (stored_roles (document_metadata p) (fst c))"
    by (simp add: accessible_def)
  then obtain m where m: "document_metadata p (fst c) = Some m" "role \<in> set (allowed_roles m)"
    by (cases "document_metadata p (fst c)") (simp_all add: stored_roles_def)
  have "map_of ROLE_ACCESS_MAP (meta_department m) = Some (allowed_roles m) \<longrightarrow>
              meta_department m \<in> set (allowed_departments role)"
    using m(2) by (auto simp: allowed_departments_iff)
  with col res c m show ?thesis by blast
qed

text \<open>
  Claim C2 (access filter and privilege bypass). When every candidate that passes the
  access test has a \<^verbatim>\<open>source\<close> key, the loop of \<^verbatim>\<open>retrieve\<close> ends normally, and the
  passages it has kept in its two lists are exactly those of the candidates whose stored
  roles contain the caller's role or whose caller is \<^verbatim>\<open>c-level\<close>, one passage for each
  such candidate; for \<^verbatim>\<open>c-level\<close> these are all candidates, whatever their stored roles.
\<close>

theorem retrieve_access_filter:
  assumes "\<forall>c\<in>set cs. (role \<in> set (stored_roles reg (fst c)) \<or> role = ''c-level'') \<longrightarrow> has_source c"
  shows "\<exists>ds gs. retrieve_loop reg role [] [] cs = Inr (ds, gs) \<and>
           mset (ds @ gs) =
             mset (map item_of (filter (\<lambda>c. role \<in> set (stored_roles reg (fst c)) \<or> role = ''c-level'') cs)) \<and>
           (role = ''c-level'' \<longrightarrow> mset (ds @ gs) = mset (map item_of cs))"
proof -
  let ?A = "\<lambda>c. role \<in> set (stored_roles reg (fst c)) \<or> role = ''c-level''"
  have acc: "accessible reg role = ?A"
    by (rule ext) (simp add: accessible_def)
  have loop: "retrieve_loop reg role [] [] cs = Inr (specific_part reg role cs, general_part reg role cs)"
    using retrieve_loop_eq[of cs reg role "[]" "[]"] assms by (simp add: acc)
  have part: "mset (specific_part reg role cs @ general_part reg role cs) = mset (map item_of (filter ?A cs))"
    unfolding specific_part_def general_part_def acc
    by (induction cs) auto
  have "role = ''c-level'' \<Longrightarrow> filter ?A cs = cs"
    by simp
  with loop part show ?thesis by auto
qed

lemma min_take_sum: "min (a::nat) k + min b (k - a) = min k (a + b)"
  by arith

lemma part_lengths:
  "length (specific_part reg role cs) + length (general_part reg role cs) =
   length (filter (accessible reg role) cs)"
  unfolding specific_part_def general_part_def by (induction cs) auto

text \<open>
  Claim C3 (department-aware ranking). For a limit \<open>top_k \<ge> 0\<close>, an initialised pipeline
  and an index result whose accessible candidates all have a \<^verbatim>\<open>source\<close> key,
  \<^verbatim>\<open>retrieve\<close> returns the first \<open>top_k\<close> department-specific accessible candidates in
  index order, followed by the general accessible candidates in index order that fill
  the slots left. The result has at most \<open>top_k\<close> entries, and exactly as many as there
  are accessible candidates when these are fewer than \<open>top_k\<close>.
\<close>

theorem retrieve_department_ranking:
  assumes "0 \<le> top_k" and "collection p = Some col" and "search col q (top_k * 3) = Inr results"
    and "\<forall>c\<in>set (candidates results). accessible (document_metadata p) role c \<longrightarrow> has_source c"
  shows "\<exists>docs. retrieve p search q role top_k = Inr docs \<and>
     docs = take (nat top_k) (specific_part (document_metadata p) role (candidates results)) @
            take (nat top_k - length (specific_part (document_metadata p) role (candidates results)))
              (general_part (document_metadata p) role (candidates results)) \<and>
     int (length docs) \<le> top_k \<and>
     length docs = min (nat top_k)
        (length (filter (accessible (document_metadata p) role) (candidates results)))"
proof -
  let ?D = "specific_part (document_metadata p) role (candidates results)"
  let ?G = "general_part (document_metadata p) role (candidates results)"
  have eq: "retrieve p search q role top_k = Inr (take (nat top_k) ?D @ take (nat top_k - length ?D) ?G)"
    using retrieve_eq[where p=p and search=search and col=col and q=q and top_k=top_k and results=results and role=role, OF assms(2,3,4)] assemble_nonneg[OF assms(1), of ?D ?G] by simp
  have len: "length ?D + length ?G = length (filter (accessible (document_metadata p) role) (candidates results))"
    by (rule part_lengths)
  have "length (take (nat top_k) ?D @ take (nat top_k - length ?D) ?G) = min (nat top_k) (length ?D + length ?G)"
    by (simp only: length_append length_take min_take_sum)
  with eq len assms(1) show ?thesis by auto
qed

text \<open>
  Claim C6, amended (unresolvable candidates). For a role other than \<^verbatim>\<open>c-level\<close> the
  loop of \<^verbatim>\<open>retrieve\<close> gives the same outcome, passages and exceptions alike, as on
  the index result from which every candidate without a registry entry has been removed.
\<close>

theorem retrieve_unresolved_dropped:
  assumes "role \<noteq> ''c-level''"
  shows "retrieve_loop reg role ds gs cs =
         retrieve_loop reg role ds gs (filter (\<lambda>c. reg (fst c) \<noteq> None) cs)"
proof (induction cs arbitrary: ds gs)
  case Nil
  show ?case by simp
next
  case (Cons c cs)
  show ?case
  proof (cases "reg (fst c)")
    case None
    then have "\<not> accessible reg role c"
      using assms by (simp add: accessible_def stored_roles_def)
    then show ?thesis using None Cons.IH by (simp add: retrieve_loop_step)
  next
    case (Some m)
    then show ?thesis using Cons.IH by (simp add: retrieve_loop_step)
  qed
qed

lemma nth_split_order:
  assumes "\<forall>x\<in>set A. P x" and "\<forall>x\<in>set B. \<not> P x"
    and "i < length (A @ B)" and "j < length (A @ B)"
    and "P ((A @ B) ! i)" and "\<not> P ((A @ B) ! j)"
  shows "i < j"
proof -
  have "i < length A"
  proof (rule ccontr)
    assume "\<not> i < length A"
    then have "(A @ B) ! i \<in> set B" using assms(3) by (simp add: nth_append)
    then show False using assms(2,5) by blast
  qed
  moreover have "\<not> j < length A"
  proof
    assume "j < length A"
    then have "(A @ B) ! j \<in> set A" by (simp add: nth_append)
    then show False using assms(1,6) by blast
  qed
  ultimately show ?thesis by simp
qed

lemma specific_part_department: "x \<in> set (specific_part reg role cs) \<Longrightarrow> department x \<noteq> ''general''"
  by (auto simp: specific_part_def is_general_def item_of_def)

lemma general_part_department: "x \<in> set (general_part reg role cs) \<Longrightarrow> department x = ''general''"
  by (auto simp: general_part_def is_general_def item_of_def)

lemma retrieve_specific_first:
  assumes "retrieve p search q role top_k = Inr docs"
    and "i < length docs" and "j < length docs"
    and "department (docs ! i) \<noteq> ''general''" and "department (docs ! j) = ''general''"
  shows "i < j"
proof -
  from retrieve_InrD[OF assms(1)] obtain col results where
    col: "collection p = Some col" and res: "search col q (top_k * 3) = Inr results" and
    src: "\<forall>c\<in>set (candidates results). accessible (document_metadata p) role c \<longrightarrow> has_source c"
    by blast
  let ?D = "specific_part (document_metadata p) role (candidates results)"
  let ?G = "general_part (document_metadata p) role (candidates results)"
  define A where "A = slice_to top_k ?D"
  define B where "B = (if int (length A) < top_k then slice_to (top_k - int (length A)) ?G else [])"
  have docs: "docs = A @ B"
    using retrieve_eq[where p=p and search=search and col=col and q=q and top_k=top_k and results=results and role=role, OF col res src] assms(1) by (simp add: A_def B_def Let_def)
  have a: "\<forall>x\<in>set A. department x \<noteq> ''general''"
    using set_slice_to[of top_k ?D] specific_part_department unfolding A_def by blast
  have b: "\<forall>x\<in>set B. \<not> department x \<noteq> ''general''"
    using set_slice_to[of "top_k - int (length A)" ?G] general_part_department
    unfolding B_def by (auto split: if_splits)
  show ?thesis
    using nth_split_order[of A "\<lambda>x. department x \<noteq> ''general''" B i j] a b assms(2-5)
    unfolding docs by blast
qed

text \<open>
  Claim C10 (missing department field). A candidate whose index metadata has no
  \<^verbatim>\<open>department\<close> key, and that passes the access test, is appended to the
  department-specific list with the empty string as its department. In every result of
  \<^verbatim>\<open>retrieve\<close> a passage whose department is not exactly \<^verbatim>\<open>general\<close> stands before
  every passage whose department is \<^verbatim>\<open>general\<close>.
\<close>

theorem retrieve_missing_department:
  assumes "metadata ''department'' = None" and "metadata ''source'' = Some src"
    and "role \<in> set (stored_roles reg doc_id) \<or> role = ''c-level''"
  shows "retrieve_loop reg role ds gs ((doc_id, doc, metadata) # rest) =
           retrieve_loop reg role (ds @ [\<lparr>content = doc, source = src, department = ''''\<rparr>]) gs rest \<and>
         (\<forall>docs i j. retrieve p search q role' top_k = Inr docs \<and> i < length docs \<and> j < length docs \<and>
            department (docs ! i) \<noteq> ''general'' \<and> department (docs ! j) = ''general'' \<longrightarrow> i < j)"
proof -
  have "retrieve_loop reg role ds gs ((doc_id, doc, metadata) # rest) =
           retrieve_loop reg role (ds @ [\<lparr>content = doc, source = src, department = ''''\<rparr>]) gs rest"
    using assms by (simp add: department_of_def)
  then show ?thesis using retrieve_specific_first by blast
qed

section \<open>The corpus, evaluated\<close>

lemma candidates_results_of [simp]: "candidates (results_of cs) = cs"
  by (induction cs) (auto simp: candidates_def results_of_def zip3_def)

lemma str_nat_2: "str_nat 2 = ''2''"
  by code_simp

lemma item_of_doc_A:
  "item_of doc_A = \<lparr>content = ''Q4 revenue $45M'', source = ''finance/q4.md'', department = ''finance''\<rparr>"
  by (simp add: item_of_def doc_A_def finance_md_def department_of_def)

lemma item_of_doc_B:
  "item_of doc_B = \<lparr>content = ''Company holidays list'', source = ''general/holidays.md'', department = ''general''\<rparr>"
  by (simp add: item_of_def doc_B_def general_md_def department_of_def)

lemma item_of_doc_orphan:
  "item_of doc_orphan = \<lparr>content = ''Board minutes'', source = ''board.md'', department = ''finance''\<rparr>"
  by (simp add: item_of_def doc_orphan_def department_of_def)

lemma item_of_doc_untagged:
  "item_of doc_untagged = \<lparr>content = ''Untagged note'', source = ''note.md'', department = []\<rparr>"
  by (simp add: item_of_def doc_untagged_def department_of_def)

lemma corpus_has_source:
  "has_source doc_A" "has_source doc_B" "has_source doc_orphan" "has_source doc_untagged"
  by (simp_all add: has_source_def doc_A_def doc_B_def doc_orphan_def doc_untagged_def
      finance_md_def general_md_def)

lemma corpus_is_general:
  "\<not> is_general doc_A" "is_general doc_B" "\<not> is_general doc_orphan" "\<not> is_general doc_untagged"
  by (simp_all add: is_general_def department_of_def doc_A_def doc_B_def doc_orphan_def
      doc_untagged_def finance_md_def general_md_def)

lemma corpus_stored_roles:
  "stored_roles ex_registry (fst doc_A) = [''finance'', ''c-level'']"
  "stored_roles ex_registry (fst doc_B) =
     [''finance'', ''marketing'', ''hr'', ''engineering'', ''c-level'', ''employee'']"
  "stored_roles ex_registry (fst doc_orphan) = []"
  "stored_roles ex_registry (fst doc_untagged) =
     [''finance'', ''marketing'', ''hr'', ''engineering'', ''c-level'', ''employee'']"
  by (simp_all add: stored_roles_def ex_registry_def doc_A_def doc_B_def doc_orphan_def
      doc_untagged_def)

lemma corpus_accessible:
  "accessible ex_registry ''finance'' doc_A" "accessible ex_registry ''finance'' doc_B"
  "\<not> accessible ex_registry ''employee'' doc_A" "accessible ex_registry ''employee'' doc_B"
  "\<not> accessible ex_registry ''finance'' doc_orphan" "accessible ex_registry ''c-level'' doc_orphan"
  "accessible ex_registry ''finance'' doc_untagged"
  by (simp_all add: accessible_def corpus_stored_roles)

lemmas corpus_simps = corpus_has_source corpus_is_general corpus_accessible
  specific_part_Cons general_part_Cons

lemma ex_pipeline_simps [simp]:
  "collection ex_pipeline = Some [doc_A, doc_B]"
  "document_metadata ex_pipeline = ex_registry"
  "doc_counter ex_pipeline = 2"
  by (simp_all add: ex_pipeline_def)

lemma ex_search_simps [simp]:
  "ex_search col q n = Inr (results_of [doc_B, doc_A])"
  "skew_search col q n = Inr (results_of [doc_orphan])"
  "untagged_search col q n = Inr (results_of [doc_B, doc_untagged])"
  by (simp_all add: ex_search_def skew_search_def untagged_search_def)

lemma retrieve_ex_finance_3:
  "retrieve ex_pipeline ex_search ''revenue'' ''finance'' 3 = Inr [item_of doc_A, item_of doc_B]"
  by (subst retrieve_eq[where col="[doc_A, doc_B]" and results="results_of [doc_B, doc_A]"])
     (simp_all add: corpus_simps slice_to_def)

lemma retrieve_ex_finance_1:
  "retrieve ex_pipeline ex_search ''revenue'' ''finance'' 1 = Inr [item_of doc_A]"
  by (subst retrieve_eq[where col="[doc_A, doc_B]" and results="results_of [doc_B, doc_A]"])
     (simp_all add: corpus_simps slice_to_def)

lemma retrieve_ex_employee_1:
  "retrieve ex_pipeline ex_search ''revenue'' ''employee'' 1 = Inr [item_of doc_B]"
  by (subst retrieve_eq[where col="[doc_A, doc_B]" and results="results_of [doc_B, doc_A]"])
     (simp_all add: corpus_simps slice_to_def)

lemma retrieve_ex_employee_3:
  "retrieve ex_pipeline ex_search ''revenue'' ''employee'' 3 = Inr [item_of doc_B]"
  by (subst retrieve_eq[where col="[doc_A, doc_B]" and results="results_of [doc_B, doc_A]"])
     (simp_all add: corpus_simps slice_to_def)

lemma retrieve_skew_finance_3:
  "retrieve ex_pipeline skew_search ''revenue'' ''finance'' 3 = Inr []"
  by (subst retrieve_eq[where col="[doc_A, doc_B]" and results="results_of [doc_orphan]"])
     (simp_all add: corpus_simps slice_to_def)

lemma retrieve_skew_c_level_3:
  "retrieve ex_pipeline skew_search ''revenue'' ''c-level'' 3 = Inr [item_of doc_orphan]"
  by (subst retrieve_eq[where col="[doc_A, doc_B]" and results="results_of [doc_orphan]"])
     (simp_all add: corpus_simps slice_to_def)

lemma retrieve_untagged_finance_3:
  "retrieve ex_pipeline untagged_search ''revenue'' ''finance'' 3 =
     Inr [item_of doc_untagged, item_of doc_B]"
  by (subst retrieve_eq[where col="[doc_A, doc_B]" and results="results_of [doc_B, doc_untagged]"])
     (simp_all add: corpus_simps slice_to_def)

theorem retrieve_department_isolation_witness:
  "''finance'' \<noteq> ''c-level'' \<and>
   retrieve ex_pipeline ex_search ''revenue'' ''finance'' 3 = Inr [item_of doc_A, item_of doc_B] \<and>
   item_of doc_A \<in> set [item_of doc_A, item_of doc_B] \<and>
   (\<exists>col results c m. collection ex_pipeline = Some col \<and>
      ex_search col ''revenue'' (3 * 3) = Inr results \<and>
      c \<in> set (candidates results) \<and> item_of doc_A = item_of c \<and>
      document_metadata ex_pipeline (fst c) = Some m \<and> ''finance'' \<in> set (allowed_roles m) \<and>
      (map_of ROLE_ACCESS_MAP (meta_department m) = Some (allowed_roles m) \<longrightarrow>
         meta_department m \<in> set (allowed_departments ''finance'')))"
proof -
  have h1: "''finance'' \<noteq> ''c-level''" by simp
  have h2: "retrieve ex_pipeline ex_search ''revenue'' ''finance'' 3 = Inr [item_of doc_A, item_of doc_B]"
    by (rule retrieve_ex_finance_3)
  have h3: "item_of doc_A \<in> set [item_of doc_A, item_of doc_B]" by simp
  show ?thesis
    using retrieve_department_isolation[OF h1 h2 h3] h1 h2 h3 by (intro conjI)
qed

theorem retrieve_access_filter_witness:
  "has_source doc_B \<and> has_source doc_A \<and>
   (\<exists>ds gs. retrieve_loop ex_registry ''employee'' [] [] [doc_B, doc_A] = Inr (ds, gs) \<and>
      mset (ds @ gs) =
        mset (map item_of (filter (\<lambda>c. ''employee'' \<in> set (stored_roles ex_registry (fst c)) \<or>
                                       ''employee'' = ''c-level'') [doc_B, doc_A])) \<and>
      (''employee'' = ''c-level'' \<longrightarrow> mset (ds @ gs) = mset (map item_of [doc_B, doc_A]))) \<and>
   filter (\<lambda>c. ''employee'' \<in> set (stored_roles ex_registry (fst c)) \<or> ''employee'' = ''c-level'')
     [doc_B, doc_A] = [doc_B]"
proof -
  have h: "\<forall>c\<in>set [doc_B, doc_A].
      (''employee'' \<in> set (stored_roles ex_registry (fst c)) \<or> ''employee'' = ''c-level'') \<longrightarrow> has_source c"
    by (simp add: corpus_has_source)
  have f: "filter (\<lambda>c. ''employee'' \<in> set (stored_roles ex_registry (fst c)) \<or> ''employee'' = ''c-level'')
     [doc_B, doc_A] = [doc_B]"
    by (simp add: corpus_stored_roles)
  show ?thesis
    using retrieve_access_filter[OF h] f corpus_has_source(1,2) by (intro conjI)
qed

theorem retrieve_department_ranking_witness:
  "(0::int) \<le> 1 \<and> collection ex_pipeline = Some [doc_A, doc_B] \<and>
   ex_search [doc_A, doc_B] ''revenue'' (1 * 3) = Inr (results_of [doc_B, doc_A]) \<and>
   has_source doc_B \<and> has_source doc_A \<and>
   retrieve ex_pipeline ex_search ''revenue'' ''finance'' 1 =
     Inr [\<lparr>content = ''Q4 revenue $45M'', source = ''finance/q4.md'', department = ''finance''\<rparr>] \<and>
   accessible ex_registry ''finance'' doc_B \<and> is_general doc_B"
proof -
  have h1: "(0::int) \<le> 1" by simp
  have h2: "collection ex_pipeline = Some [doc_A, doc_B]" by simp
  have h3: "ex_search [doc_A, doc_B] ''revenue'' (1 * 3) = Inr (results_of [doc_B, doc_A])" by simp
  have h4: "\<forall>c\<in>set (candidates (results_of [doc_B, doc_A])).
      accessible (document_metadata ex_pipeline) ''finance'' c \<longrightarrow> has_source c"
    by (simp add: corpus_has_source)
  have "retrieve ex_pipeline ex_search ''revenue'' ''finance'' 1 = Inr [item_of doc_A]"
    using retrieve_department_ranking[where search=ex_search, OF h1 h2 h3 h4]
    by (simp add: corpus_simps)
  then show ?thesis
    using h1 h2 h3 corpus_has_source(1,2) corpus_accessible(2) corpus_is_general(2)
    by (simp only: item_of_doc_A simp_thms)
qed

theorem retrieve_unresolved_counterexample:
  "ex_registry (fst doc_orphan) = None \<and>
   candidates (results_of [doc_orphan]) = [doc_orphan] \<and>
   retrieve ex_pipeline skew_search ''revenue'' ''c-level'' 3 =
     Inr [\<lparr>content = ''Board minutes'', source = ''board.md'', department = ''finance''\<rparr>]"
  using retrieve_skew_c_level_3
  by (simp add: item_of_doc_orphan) (simp add: ex_registry_def doc_orphan_def)

theorem retrieve_unresolved_dropped_witness:
  "''finance'' \<noteq> ''c-level'' \<and>
   ex_registry (fst doc_orphan) = None \<and>
   retrieve_loop ex_registry ''finance'' [] [] [doc_orphan, doc_A] =
     retrieve_loop ex_registry ''finance'' [] [] [doc_A]"
proof -
  have h: "''finance'' \<noteq> ''c-level''" by simp
  have n: "ex_registry (fst doc_orphan) = None" "ex_registry (fst doc_A) \<noteq> None"
    by (simp_all add: ex_registry_def doc_orphan_def doc_A_def)
  show ?thesis
    using retrieve_unresolved_dropped[OF h, of ex_registry "[]" "[]" "[doc_orphan, doc_A]"] h n
    by simp
qed

theorem retrieve_missing_department_witness:
  "snd (snd doc_untagged) ''department'' = None \<and>
   snd (snd doc_untagged) ''source'' = Some ''note.md'' \<and>
   ''finance'' \<in> set (stored_roles ex_registry (fst doc_untagged)) \<and>
   retrieve_loop ex_registry ''finance'' [] [item_of doc_B]
       ((fst doc_untagged, fst (snd doc_untagged), snd (snd doc_untagged)) # []) =
     retrieve_loop ex_registry ''finance''
       ([] @ [\<lparr>content = fst (snd doc_untagged), source = ''note.md'', department = []\<rparr>])
       [item_of doc_B] [] \<and>
   retrieve ex_pipeline untagged_search ''revenue'' ''finance'' 3 =
     Inr [item_of doc_untagged, item_of doc_B] \<and>
   department (item_of doc_untagged) = [] \<and> department (item_of doc_B) = ''general''"
proof -
  have h1: "snd (snd doc_untagged) ''department'' = None" by (simp add: doc_untagged_def)
  have h2: "snd (snd doc_untagged) ''source'' = Some ''note.md''" by (simp add: doc_untagged_def)
  have h3: "''finance'' \<in> set (stored_roles ex_registry (fst doc_untagged)) \<or> ''finance'' = ''c-level''"
    by (simp add: corpus_stored_roles)
  have h3': "''finance'' \<in> set (stored_roles ex_registry (fst doc_untagged))"
    by (simp add: corpus_stored_roles)
  note t = retrieve_missing_department[where doc="fst (snd doc_untagged)" and ds="[]"
      and gs="[item_of doc_B]" and rest="[]" and p=ex_pipeline and search=untagged_search
      and q="''revenue''" and role'="''finance''" and top_k=3, OF h1 h2 h3]
  have d: "department (item_of doc_untagged) = []" "department (item_of doc_B) = ''general''"
    by (simp_all add: item_of_doc_untagged item_of_doc_B)
  show ?thesis
    using conjunct1[OF t] h1 h2 h3' retrieve_untagged_finance_3 d by (intro conjI)
qed

section \<open>query, the endpoints and role monotonicity\<close>

text \<open>
  Claim C5 (empty result). Whenever \<^verbatim>\<open>retrieve\<close> returns for the question and the role
  (with the default limit 3): if it returns no passage, \<^verbatim>\<open>query\<close> returns normally with
  the answer \<^verbatim>\<open>No documents found accessible to <role> role for this query.\<close>, no sources,
  and no prompt is sent to the answer service; otherwise exactly one prompt is sent, the
  answer is what \<^verbatim>\<open>generate_response\<close> gives, and the sources are the source labels of
  the retrieved passages in their order.
\<close>

theorem query_empty_result:
  assumes "retrieve p search question role 3 = Inr docs"
  shows "(docs = [] \<longrightarrow>
            query p search llm question role =
              (Inr \<lparr>answer = ''No documents found accessible to '' @ role @ '' role for this query.'',
                    sources = [], resp_role = role, resp_query = question\<rparr>, [])) \<and>
         (docs \<noteq> [] \<longrightarrow>
            query p search llm question role =
              (Inr \<lparr>answer = fst (generate_response llm question docs),
                    sources = map source docs, resp_role = role, resp_query = question\<rparr>,
               [prompt_of question (build_context [] 1 docs)]))"
  using assms by (simp add: query_def generate_response_def Let_def)

theorem query_empty_result_witness:
  "retrieve ex_pipeline skew_search ''revenue'' ''finance'' 3 = Inr [] \<and>
   query ex_pipeline skew_search llm_parrot ''revenue'' ''finance'' =
     (Inr \<lparr>answer = ''No documents found accessible to finance role for this query.'',
           sources = [], resp_role = ''finance'', resp_query = ''revenue''\<rparr>, []) \<and>
   retrieve ex_pipeline ex_search ''revenue'' ''finance'' 3 = Inr [item_of doc_A, item_of doc_B] \<and>
   query ex_pipeline ex_search llm_parrot ''revenue'' ''finance'' =
     (Inr \<lparr>answer = ''Error generating response: Connection error.'',
           sources = [''finance/q4.md'', ''general/holidays.md''],
           resp_role = ''finance'', resp_query = ''revenue''\<rparr>,
      [prompt_of ''revenue'' (build_context [] 1 [item_of doc_A, item_of doc_B])])"
proof -
  have a: "query ex_pipeline skew_search llm_parrot ''revenue'' ''finance'' =
     (Inr \<lparr>answer = ''No documents found accessible to finance role for this query.'',
           sources = [], resp_role = ''finance'', resp_query = ''revenue''\<rparr>, [])"
    using query_empty_result[OF retrieve_skew_finance_3, of llm_parrot] by simp
  have b: "query ex_pipeline ex_search llm_parrot ''revenue'' ''finance'' =
     (Inr \<lparr>answer = ''Error generating response: Connection error.'',
           sources = [''finance/q4.md'', ''general/holidays.md''],
           resp_role = ''finance'', resp_query = ''revenue''\<rparr>,
      [prompt_of ''revenue'' (build_context [] 1 [item_of doc_A, item_of doc_B])])"
    using query_empty_result[OF retrieve_ex_finance_3, of llm_parrot]
    by (simp add: generate_response_def llm_parrot_def item_of_doc_A item_of_doc_B)
  show ?thesis
    using retrieve_skew_finance_3 a retrieve_ex_finance_3 b by (intro conjI)
qed

text \<open>
  Claim C8, amended (failure of the answer service). When passages were retrieved and the
  answer service raises an exception \<open>e\<close>, the \<^verbatim>\<open>/query\<close> endpoint still returns a normal
  response: its answer is the text \<^verbatim>\<open>Error generating response: \<close> followed by \<^verbatim>\<open>str(e)\<close>,
  its sources are those of the retrieved passages, and the service was called exactly
  once. That answer differs from the message for an empty result.
\<close>

theorem generation_failure_in_answer:
  assumes "retrieve p search question role 3 = Inr docs" and "docs \<noteq> []"
    and "llm (prompt_of question (build_context [] 1 docs)) = Inl e"
  shows "query_chatbot (Some p) search llm question role =
           (Inr \<lparr>answer = ''Error generating response: '' @ str_exn e,
                 sources = map source docs, resp_role = role, resp_query = question\<rparr>,
            [prompt_of question (build_context [] 1 docs)]) \<and>
         ''Error generating response: '' @ str_exn e \<noteq>
           ''No documents found accessible to '' @ role @ '' role for this query.''"
  using assms by (simp add: query_chatbot_def query_def generate_response_def Let_def)

theorem generation_failure_counterexample:
  "llm_down (prompt_of ''revenue'' (build_context [] 1 [item_of doc_A, item_of doc_B])) =
     Inl (OtherError ''Connection error.'') \<and>
   llm_parrot (prompt_of ''revenue'' (build_context [] 1 [item_of doc_A, item_of doc_B])) =
     Inr ''Error generating response: Connection error.'' \<and>
   fst (query_chatbot (Some ex_pipeline) ex_search llm_down ''revenue'' ''finance'') =
     Inr \<lparr>answer = ''Error generating response: Connection error.'',
           sources = [''finance/q4.md'', ''general/holidays.md''],
           resp_role = ''finance'', resp_query = ''revenue''\<rparr> \<and>
   query_chatbot (Some ex_pipeline) ex_search llm_down ''revenue'' ''finance'' =
     query_chatbot (Some ex_pipeline) ex_search llm_parrot ''revenue'' ''finance''"
  by (simp add: query_chatbot_def query_def generate_response_def retrieve_ex_finance_3
      llm_down_def llm_parrot_def item_of_doc_A item_of_doc_B)

theorem generation_failure_in_answer_witness:
  "retrieve ex_pipeline ex_search ''revenue'' ''finance'' 3 = Inr [item_of doc_A, item_of doc_B] \<and>
   [item_of doc_A, item_of doc_B] \<noteq> [] \<and>
   llm_down (prompt_of ''revenue'' (build_context [] 1 [item_of doc_A, item_of doc_B])) =
     Inl (OtherError ''Connection error.'') \<and>
   query_chatbot (Some ex_pipeline) ex_search llm_down ''revenue'' ''finance'' =
     (Inr \<lparr>answer = ''Error generating response: Connection error.'',
           sources = [''finance/q4.md'', ''general/holidays.md''],
           resp_role = ''finance'', resp_query = ''revenue''\<rparr>,
      [prompt_of ''revenue'' (build_context [] 1 [item_of doc_A, item_of doc_B])])"
proof -
  have h2: "[item_of doc_A, item_of doc_B] \<noteq> []" by simp
  have h3: "llm_down (prompt_of ''revenue'' (build_context [] 1 [item_of doc_A, item_of doc_B])) =
     Inl (OtherError ''Connection error.'')"
    by (simp add: llm_down_def)
  have c: "query_chatbot (Some ex_pipeline) ex_search llm_down ''revenue'' ''finance'' =
     (Inr \<lparr>answer = ''Error generating response: Connection error.'',
           sources = [''finance/q4.md'', ''general/holidays.md''],
           resp_role = ''finance'', resp_query = ''revenue''\<rparr>,
      [prompt_of ''revenue'' (build_context [] 1 [item_of doc_A, item_of doc_B])])"
    using conjunct1[OF generation_failure_in_answer[where llm=llm_down, OF retrieve_ex_finance_3 h2 h3]]
    by (simp add: item_of_doc_A item_of_doc_B)
  show ?thesis
    using retrieve_ex_finance_3 h2 h3 c by (intro conjI)
qed

text \<open>
  Claim C9 (upload is for c-level only). With the pipeline initialised, an upload by a
  caller whose role is not \<^verbatim>\<open>c-level\<close> is rejected with status 403; the pipeline is left
  as it was and the file is not read.
\<close>

theorem upload_requires_c_level:
  assumes "role \<noteq> ''c-level''"
  shows "upload_document (Some p) fp add filename file_bytes dept_arg role =
           (Inl (HTTPException 403 ''Only C-level executives can upload documents''), Some p, False)"
  using assms by (simp add: upload_document_def)

theorem upload_requires_c_level_witness:
  "''hr'' \<noteq> ''c-level'' \<and>
   upload_document (Some ex_pipeline) ex_parser append_add ''memo.md'' ''Contract terms'' (Some ''hr'') ''hr'' =
     (Inl (HTTPException 403 ''Only C-level executives can upload documents''), Some ex_pipeline, False)"
proof -
  have h: "''hr'' \<noteq> ''c-level''" by simp
  show ?thesis using upload_requires_c_level[OF h] h by (intro conjI)
qed

lemma join_valid_departments:
  "join '', '' valid_departments = ''finance, marketing, hr, engineering, general''"
  by (simp add: valid_departments_def)

lemma determine_department_given:
  "dept \<noteq> [] \<Longrightarrow> determine_department fp filename (Some dept) = Inr dept"
  by (simp add: determine_department_def)

lemma upload_body_invalid:
  assumes "dept \<noteq> []" and "dept \<notin> set valid_departments"
  shows "\<exists>e was_read. upload_body fp add p filename file_bytes (Some dept) = (Inl e, p, was_read) \<and>
     (\<forall>text fmt. validate_filename fp filename = Inr True \<and>
         parse_file fp file_bytes filename = Inr (text, fmt) \<longrightarrow>
         e = ValueError (''Invalid department: '' @ dept @
               ''. Valid departments: finance, marketing, hr, engineering, general''))"
proof (cases "validate_filename fp filename")
  case (Inl e)
  then show ?thesis by (auto simp: upload_body_def)
next
  case (Inr ok)
  show ?thesis
  proof (cases ok)
    case False
    then show ?thesis using Inr by (auto simp: upload_body_def)
  next
    case True
    show ?thesis
    proof (cases "parse_file fp file_bytes filename")
      case (Inl e)
      then show ?thesis using Inr True by (auto simp: upload_body_def)
    next
      case r: (Inr parsed)
      obtain parsed_text fmt where "parsed = (parsed_text, fmt)" by (cases parsed)
      then show ?thesis
        using Inr True r assms
        by (auto simp: upload_body_def determine_department_given join_valid_departments)
    qed
  qed
qed

text \<open>
  Claim C4, amended (invalid department at the upload endpoint). An upload that names a
  department (a non-empty string) outside the five valid departments fails, whatever the
  caller, the file and the parser, and leaves the pipeline --- registry, index and
  counter --- as it was. For a \<^verbatim>\<open>c-level\<close> caller whose file name is accepted and whose file
  parses, the failure is status 400 with the detail \<^verbatim>\<open>Invalid department: ...\<close>.
\<close>

theorem upload_invalid_department:
  assumes "dept \<noteq> []" and "dept \<notin> set valid_departments"
  shows "\<exists>e was_read.
           upload_document rag_pipeline fp add filename file_bytes (Some dept) role =
             (Inl e, rag_pipeline, was_read) \<and>
           (\<forall>p text fmt. rag_pipeline = Some p \<and> role = ''c-level'' \<and>
               validate_filename fp filename = Inr True \<and>
               parse_file fp file_bytes filename = Inr (text, fmt) \<longrightarrow>
               e = HTTPException 400 (''Invalid department: '' @ dept @
                     ''. Valid departments: finance, marketing, hr, engineering, general''))"
proof (cases rag_pipeline)
  case None
  then show ?thesis by (auto simp: upload_document_def)
next
  case (Some p)
  show ?thesis
  proof (cases "role = ''c-level''")
    case False
    then show ?thesis using Some by (auto simp: upload_document_def)
  next
    case True
    from upload_body_invalid[OF assms, of fp add p filename file_bytes]
    obtain e was_read where
      b: "upload_body fp add p filename file_bytes (Some dept) = (Inl e, p, was_read)" and
      m: "\<forall>text fmt. validate_filename fp filename = Inr True \<and>
         parse_file fp file_bytes filename = Inr (text, fmt) \<longrightarrow>
         e = ValueError (''Invalid department: '' @ dept @
               ''. Valid departments: finance, marketing, hr, engineering, general'')"
      by blast
    have "upload_document rag_pipeline fp add filename file_bytes (Some dept) role =
             (Inl (upload_error e), rag_pipeline, was_read)"
      using Some True b by (simp add: upload_document_def)
    moreover have "\<forall>p text fmt. rag_pipeline = Some p \<and> role = ''c-level'' \<and>
               validate_filename fp filename = Inr True \<and>
               parse_file fp file_bytes filename = Inr (text, fmt) \<longrightarrow>
               upload_error e = HTTPException 400 (''Invalid department: '' @ dept @
                     ''. Valid departments: finance, marketing, hr, engineering, general'')"
      using m by auto
    ultimately show ?thesis by blast
  qed
qed

theorem add_document_unvalidated_counterexample:
  "''legal'' \<notin> set valid_departments \<and>
   fst (add_document append_add ex_pipeline ''Contract terms'' ''memo.md'' ''legal'' [''legal'']) =
     Inr ''doc_2'' \<and>
   document_metadata
     (snd (add_document append_add ex_pipeline ''Contract terms'' ''memo.md'' ''legal'' [''legal'']))
     ''doc_2'' =
     Some \<lparr>meta_source = ''memo.md'', meta_department = ''legal'', allowed_roles = [''legal'']\<rparr> \<and>
   collection
     (snd (add_document append_add ex_pipeline ''Contract terms'' ''memo.md'' ''legal'' [''legal''])) =
     Some [doc_A, doc_B,
           (''doc_2'', ''Contract terms'', [''source'' \<mapsto> ''memo.md'', ''department'' \<mapsto> ''legal''])]"
  by (simp add: add_document_def append_add_def valid_departments_def str_nat_2 Let_def)

theorem upload_invalid_department_witness:
  "''legal'' \<noteq> [] \<and> ''legal'' \<notin> set valid_departments \<and>
   upload_document (Some ex_pipeline) ex_parser append_add ''memo.md'' ''Contract terms''
       (Some ''legal'') ''c-level'' =
     (Inl (HTTPException 400
        ''Invalid department: legal. Valid departments: finance, marketing, hr, engineering, general''),
      Some ex_pipeline, True)"
proof -
  have h1: "''legal'' \<noteq> []" by simp
  have h2: "''legal'' \<notin> set valid_departments" by (simp add: valid_departments_def)
  from upload_invalid_department[OF h1 h2, of "Some ex_pipeline" ex_parser append_add
      "''memo.md''" "''Contract terms''" "''c-level''"]
  obtain e was_read where
    u: "upload_document (Some ex_pipeline) ex_parser append_add ''memo.md'' ''Contract terms''
       (Some ''legal'') ''c-level'' = (Inl e, Some ex_pipeline, was_read)" and
    m: "\<forall>p text fmt. Some ex_pipeline = Some p \<and> ''c-level'' = ''c-level'' \<and>
               validate_filename ex_parser ''memo.md'' = Inr True \<and>
               parse_file ex_parser ''Contract terms'' ''memo.md'' = Inr (text, fmt) \<longrightarrow>
               e = HTTPException 400 (''Invalid department: '' @ ''legal'' @
                     ''. Valid departments: finance, marketing, hr, engineering, general'')"
    by blast
  have e: "e = HTTPException 400
        ''Invalid department: legal. Valid departments: finance, marketing, hr, engineering, general''"
    using m by (simp add: ex_parser_def)
  have r: "was_read = True"
    using u by (simp add: upload_document_def upload_body_def ex_parser_def
        determine_department_def valid_departments_def)
  show ?thesis using h1 h2 u e r by simp
qed

lemma retrieve_Inr_value:
  assumes "retrieve p search q role top_k = Inr docs" and "collection p = Some col"
    and "search col q (top_k * 3) = Inr results"
  shows "docs = (let retrieved = slice_to top_k (specific_part (document_metadata p) role (candidates results))
          in if int (length retrieved) < top_k
             then retrieved @ slice_to (top_k - int (length retrieved))
                    (general_part (document_metadata p) role (candidates results))
             else retrieved)"
proof -
  from retrieve_InrD[OF assms(1)] assms(2,3)
  have src: "\<forall>c\<in>set (candidates results). accessible (document_metadata p) role c \<longrightarrow> has_source c"
    by auto
  show ?thesis
    using retrieve_eq[where p=p and search=search and col=col and q=q and top_k=top_k
        and results=results and role=role, OF assms(2,3) src] assms(1) by simp
qed

lemma accessible_mono:
  assumes "R1 \<noteq> ''c-level''"
    and "set (allowed_departments R1) \<subseteq> set (allowed_departments R2)"
    and "policy_on reg cs" and "c \<in> set cs" and "accessible reg R1 c"
  shows "accessible reg R2 c"
proof -
  from assms(1,5) have "R1 \<in> set (stored_roles reg (fst c))"
    by (simp add: accessible_def)
  then obtain m where m: "reg (fst c) = Some m" "R1 \<in> set (allowed_roles m)"
    by (cases "reg (fst c)") (simp_all add: stored_roles_def)
  from assms(3,4) m(1) have pol: "map_of ROLE_ACCESS_MAP (meta_department m) = Some (allowed_roles m)"
    by (auto simp: policy_on_def list_all_iff policy_entry_def)
  with m(2) have "meta_department m \<in> set (allowed_departments R1)"
    by (auto simp: allowed_departments_iff)
  with assms(2) have "meta_department m \<in> set (allowed_departments R2)"
    by blast
  with pol have "R2 \<in> set (allowed_roles m)"
    by (auto simp: allowed_departments_iff)
  with m(1) show ?thesis
    by (simp add: accessible_def stored_roles_def)
qed

text \<open>
  Claim C7, amended (role monotonicity). Let \<open>R1\<close> be a role other than \<^verbatim>\<open>c-level\<close> whose
  departments under the access map are among those of \<open>R2\<close>, and let the registry entries
  of the candidates be derived from the access map. Then every candidate accessible to
  \<open>R1\<close> is accessible to \<open>R2\<close>; and when the candidates accessible to \<open>R2\<close> are no more than
  the limit, every passage retrieved for \<open>R1\<close> is retrieved for \<open>R2\<close>.
\<close>

theorem role_monotone_without_truncation:
  assumes "R1 \<noteq> ''c-level''"
    and "set (allowed_departments R1) \<subseteq> set (allowed_departments R2)"
    and "collection p = Some col" and "search col q (top_k * 3) = Inr results"
    and "policy_on (document_metadata p) (candidates results)"
    and "int (length (filter (accessible (document_metadata p) R2) (candidates results))) \<le> top_k"
    and "retrieve p search q R1 top_k = Inr docs1"
    and "retrieve p search q R2 top_k = Inr docs2"
  shows "(\<forall>c\<in>set (candidates results).
            accessible (document_metadata p) R1 c \<longrightarrow> accessible (document_metadata p) R2 c) \<and>
         set docs1 \<subseteq> set docs2"
proof -
  let ?reg = "document_metadata p"
  let ?cs = "candidates results"
  have mono: "\<forall>c\<in>set ?cs. accessible ?reg R1 c \<longrightarrow> accessible ?reg R2 c"
    using accessible_mono[OF assms(1,2,5)] by blast
  have k: "0 \<le> top_k" using assms(6) by linarith
  have len: "length (specific_part ?reg R2 ?cs) + length (general_part ?reg R2 ?cs) \<le> nat top_k"
    using assms(6) by (simp add: part_lengths)
  have "docs2 = take (nat top_k) (specific_part ?reg R2 ?cs) @
                take (nat top_k - length (specific_part ?reg R2 ?cs)) (general_part ?reg R2 ?cs)"
    using retrieve_Inr_value[OF assms(8,3,4)]
      assemble_nonneg[OF k, of "specific_part ?reg R2 ?cs" "general_part ?reg R2 ?cs"]
    by simp
  then have docs2: "docs2 = specific_part ?reg R2 ?cs @ general_part ?reg R2 ?cs"
    using len by simp
  have "set docs1 \<subseteq> set (specific_part ?reg R1 ?cs) \<union> set (general_part ?reg R1 ?cs)"
    by (rule retrieve_set_subset[OF assms(7,3,4)])
  moreover have "set (specific_part ?reg R1 ?cs) \<subseteq> set (specific_part ?reg R2 ?cs)"
    using mono by (auto simp: specific_part_def)
  moreover have "set (general_part ?reg R1 ?cs) \<subseteq> set (general_part ?reg R2 ?cs)"
    using mono by (auto simp: general_part_def)
  ultimately have "set docs1 \<subseteq> set docs2"
    unfolding docs2 by auto
  with mono show ?thesis by blast
qed

lemma allowed_departments_employee: "allowed_departments ''employee'' = [''general'']"
  by (simp add: allowed_departments_def ROLE_ACCESS_MAP_def)

lemma allowed_departments_finance: "allowed_departments ''finance'' = [''finance'', ''general'']"
  by (simp add: allowed_departments_def ROLE_ACCESS_MAP_def)

lemma policy_on_corpus: "policy_on ex_registry [doc_B, doc_A]"
  by (simp add: policy_on_def policy_entry_def ex_registry_def doc_A_def doc_B_def ROLE_ACCESS_MAP_def)

theorem role_monotone_counterexample:
  "''employee'' \<noteq> ''c-level'' \<and> ''finance'' \<noteq> ''c-level'' \<and>
   set (allowed_departments ''employee'') \<subseteq> set (allowed_departments ''finance'') \<and>
   retrieve ex_pipeline ex_search ''revenue'' ''employee'' 1 =
     Inr [\<lparr>content = ''Company holidays list'', source = ''general/holidays.md'', department = ''general''\<rparr>] \<and>
   retrieve ex_pipeline ex_search ''revenue'' ''finance'' 1 =
     Inr [\<lparr>content = ''Q4 revenue $45M'', source = ''finance/q4.md'', department = ''finance''\<rparr>] \<and>
   \<lparr>content = ''Company holidays list'', source = ''general/holidays.md'', department = ''general''\<rparr>
     \<notin> set [\<lparr>content = ''Q4 revenue $45M'', source = ''finance/q4.md'', department = ''finance''\<rparr>]"
  using retrieve_ex_employee_1 retrieve_ex_finance_1
  by (simp add: item_of_doc_A item_of_doc_B allowed_departments_employee allowed_departments_finance)

theorem role_monotone_without_truncation_witness:
  "''employee'' \<noteq> ''c-level'' \<and>
   set (allowed_departments ''employee'') \<subseteq> set (allowed_departments ''finance'') \<and>
   collection ex_pipeline = Some [doc_A, doc_B] \<and>
   ex_search [doc_A, doc_B] ''revenue'' (3 * 3) = Inr (results_of [doc_B, doc_A]) \<and>
   policy_on (document_metadata ex_pipeline) (candidates (results_of [doc_B, doc_A])) \<and>
   int (length (filter (accessible (document_metadata ex_pipeline) ''finance'')
          (candidates (results_of [doc_B, doc_A])))) \<le> 3 \<and>
   retrieve ex_pipeline ex_search ''revenue'' ''employee'' 3 = Inr [item_of doc_B] \<and>
   retrieve ex_pipeline ex_search ''revenue'' ''finance'' 3 = Inr [item_of doc_A, item_of doc_B] \<and>
   set [item_of doc_B] \<subseteq> set [item_of doc_A, item_of doc_B]"
proof -
  have h1: "''employee'' \<noteq> ''c-level''" by simp
  have h2: "set (allowed_departments ''employee'') \<subseteq> set (allowed_departments ''finance'')"
    by (simp add: allowed_departments_employee allowed_departments_finance)
  have h3: "collection ex_pipeline = Some [doc_A, doc_B]" by simp
  have h4: "ex_search [doc_A, doc_B] ''revenue'' (3 * 3) = Inr (results_of [doc_B, doc_A])" by simp
  have h5: "policy_on (document_metadata ex_pipeline) (candidates (results_of [doc_B, doc_A]))"
    by (simp add: policy_on_corpus)
  have h6: "int (length (filter (accessible (document_metadata ex_pipeline) ''finance'')
          (candidates (results_of [doc_B, doc_A])))) \<le> 3"
    by (simp add: corpus_accessible)
  note t = role_monotone_without_truncation[where search=ex_search, OF h1 h2 h3 h4 h5 h6
      retrieve_ex_employee_3 retrieve_ex_finance_3]
  show ?thesis
    using h1 h2 h3 h4 h5 h6 retrieve_ex_employee_3 retrieve_ex_finance_3 conjunct2[OF t]
    by (intro conjI)
qed

section \<open>The upload endpoint keeps the registry derived from the access map\<close>

text \<open>
  The roles \<^verbatim>\<open>upload_document\<close> computes for a valid department are those of
  \<^verbatim>\<open>ROLE_ACCESS_MAP\<close>, so a registry whose entries are derived from the access map
  stays so through every upload, whether it succeeds or fails.
\<close>

lemma policy_derived_on: "policy_derived reg \<Longrightarrow> policy_on reg cs"
  by (auto simp: policy_derived_def policy_on_def list_all_iff split: option.splits)

lemma policy_derived_corpus: "policy_derived ex_registry"
  by (auto simp: policy_derived_def policy_entry_def ex_registry_def ROLE_ACCESS_MAP_def
      split: if_splits)

lemma add_document_registry:
  "document_metadata (snd (add_document add p text src dept roles)) =
     (case collection p of
        None \<Rightarrow> document_metadata p
      | Some col \<Rightarrow> (document_metadata p)
          (''doc_'' @ str_nat (doc_counter p) \<mapsto>
             \<lparr>meta_source = src, meta_department = dept, allowed_roles = roles\<rparr>))"
  by (simp add: add_document_def Let_def split: option.splits sum.splits)

lemma add_document_policy:
  assumes "policy_derived (document_metadata p)"
    and "policy_entry \<lparr>meta_source = src, meta_department = dept, allowed_roles = roles\<rparr>"
  shows "policy_derived (document_metadata (snd (add_document add p text src dept roles)))"
  using assms unfolding add_document_registry
  by (auto simp: policy_derived_def split: option.splits if_splits)

lemma upload_roles_policy:
  assumes "dept \<in> set valid_departments"
  shows "policy_entry \<lparr>meta_source = src, meta_department = dept,
           allowed_roles = (if dept = ''general''
              then [''finance'', ''marketing'', ''hr'', ''engineering'', ''c-level'', ''employee'']
              else [dept, ''c-level''])\<rparr>"
  using assms by (auto simp: policy_entry_def valid_departments_def ROLE_ACCESS_MAP_def)

lemma upload_body_policy:
  assumes "policy_derived (document_metadata p)"
    and "upload_body fp add p filename file_bytes dept_arg = (res, p', was_read)"
  shows "policy_derived (document_metadata p')"
proof (cases "\<exists>parsed_text fmt dept. validate_filename fp filename = Inr True \<and>
    parse_file fp file_bytes filename = Inr (parsed_text, fmt) \<and>
    determine_department fp filename dept_arg = Inr dept \<and> dept \<in> set valid_departments")
  case False
  then have "p' = p"
    using assms(2)
    by (auto simp: upload_body_def split: sum.splits if_splits prod.splits)
  then show ?thesis using assms(1) by simp
next
  case True
  then obtain parsed_text fmt dept where
    v: "validate_filename fp filename = Inr True" and
    ps: "parse_file fp file_bytes filename = Inr (parsed_text, fmt)" and
    d: "determine_department fp filename dept_arg = Inr dept" and
    ok: "dept \<in> set valid_departments"
    by blast
  let ?roles = "if dept = ''general''
              then [''finance'', ''marketing'', ''hr'', ''engineering'', ''c-level'', ''employee'']
              else [dept, ''c-level'']"
  have "p' = snd (add_document add p parsed_text filename dept ?roles)"
    using assms(2) v ps d ok
    by (auto simp: upload_body_def Let_def split: sum.splits prod.splits)
  then show ?thesis
    using add_document_policy[OF assms(1) upload_roles_policy[OF ok]] by simp
qed

lemma upload_document_policy:
  assumes "policy_derived (document_metadata p)"
    and "upload_document (Some p) fp add filename file_bytes dept_arg role = (res, Some p', was_read)"
  shows "policy_derived (document_metadata p')"
proof (cases "role = ''c-level''")
  case False
  then have "p' = p" using assms(2) by (simp add: upload_document_def)
  then show ?thesis using assms(1) by simp
next
  case True
  obtain r q w where b: "upload_body fp add p filename file_bytes dept_arg = (r, q, w)"
    by (cases "upload_body fp add p filename file_bytes dept_arg") auto
  then have "p' = q"
    using assms(2) True by (auto simp: upload_document_def split: sum.splits)
  then show ?thesis using upload_body_policy[OF assms(1) b] by simp
qed

end
